theory Spec2Isabelle
  imports Complex_Main
begin

section \<open>Python strings\<close>

text \<open>
  A Python \<open>str\<close> is modelled as a \<open>string\<close>: a list of 8-bit characters, read as the code
  points U+0000 to U+00FF. On these code points \<open>str.lower\<close>, \<open>str.strip\<close>, the regular
  expression classes \<open>\d\<close> and \<open>\s\<close> and case-insensitive matching are as written below;
  the copyright sign is the single character \<open>CHR 0xA9\<close>.
\<close>

definition upper_chars :: string where
  "upper_chars = ''ABCDEFGHIJKLMNOPQRSTUVWXYZ'' @
     [CHR 0xC0, CHR 0xC1, CHR 0xC2, CHR 0xC3, CHR 0xC4, CHR 0xC5, CHR 0xC6, CHR 0xC7,
      CHR 0xC8, CHR 0xC9, CHR 0xCA, CHR 0xCB, CHR 0xCC, CHR 0xCD, CHR 0xCE, CHR 0xCF,
      CHR 0xD0, CHR 0xD1, CHR 0xD2, CHR 0xD3, CHR 0xD4, CHR 0xD5, CHR 0xD6,
      CHR 0xD8, CHR 0xD9, CHR 0xDA, CHR 0xDB, CHR 0xDC, CHR 0xDD, CHR 0xDE]"

definition lower_chars :: string where
  "lower_chars = ''abcdefghijklmnopqrstuvwxyz'' @
     [CHR 0xE0, CHR 0xE1, CHR 0xE2, CHR 0xE3, CHR 0xE4, CHR 0xE5, CHR 0xE6, CHR 0xE7,
      CHR 0xE8, CHR 0xE9, CHR 0xEA, CHR 0xEB, CHR 0xEC, CHR 0xED, CHR 0xEE, CHR 0xEF,
      CHR 0xF0, CHR 0xF1, CHR 0xF2, CHR 0xF3, CHR 0xF4, CHR 0xF5, CHR 0xF6,
      CHR 0xF8, CHR 0xF9, CHR 0xFA, CHR 0xFB, CHR 0xFC, CHR 0xFD, CHR 0xFE]"

definition py_lower_char :: "char \<Rightarrow> char" where
  "py_lower_char c =
     (case map_of (zip upper_chars lower_chars) c of Some l \<Rightarrow> l | None \<Rightarrow> c)"

text \<open>\<open>s.lower()\<close>\<close>

definition py_lower :: "string \<Rightarrow> string" where
  "py_lower s = map py_lower_char s"

text \<open>\<open>s.startswith(p)\<close>\<close>

fun starts_with :: "string \<Rightarrow> string \<Rightarrow> bool" where
  "starts_with [] s = True"
| "starts_with (p # ps) [] = False"
| "starts_with (p # ps) (c # cs) = (p = c \<and> starts_with ps cs)"

text \<open>\<open>p in s\<close> on strings: \<open>p\<close> occurs in \<open>s\<close> as a contiguous substring.\<close>

fun py_in :: "string \<Rightarrow> string \<Rightarrow> bool" where
  "py_in p [] = (p = [])"
| "py_in p (c # cs) = (starts_with p (c # cs) \<or> py_in p cs)"

text \<open>\<open>str(n)\<close> for an integer, as an f-string writes it.\<close>

fun str_nat :: "nat \<Rightarrow> string" where
  "str_nat n = (if n < 10 then [''0123456789'' ! n]
                else str_nat (n div 10) @ [''0123456789'' ! (n mod 10)])"

declare str_nat.simps [simp del]

definition str_int :: "int \<Rightarrow> string" where
  "str_int i = (if i < 0 then CHR ''-'' # str_nat (nat (- i)) else str_nat (nat i))"

section \<open>The records of the scorer\<close>

text \<open>
  The dictionaries of the source are records whose fields are the keys. A field is \<open>None\<close>
  when the key is missing from the dictionary; a key that is present holds a value of the
  field's type. The keys that the source reads with the one-argument \<open>dict.get(key)\<close>, or
  does not read (\<open>founded_year\<close>, \<open>name\<close>, \<open>website\<close>, \<open>employees\<close> and every key
  of a \<open>website_data\<close> dictionary), read the same when
  they hold Python's \<open>None\<close> as when they are missing, and \<open>None\<close> stands for that too.
  The keys that the scorer reads with a default, \<open>dict.get(key, default)\<close>, are
  \<open>website_data\<close>, \<open>industry\<close>, \<open>estimated_revenue\<close> and \<open>location\<close>: for these
  \<open>None\<close> is the missing key only. Such a key holding Python's \<open>None\<close> is no value of
  the record: the source does not take the default then and raises where it uses the value.
\<close>

text \<open>A \<open>datetime\<close> at midnight, as \<open>strptime\<close> gives it for a date.\<close>

record datetime =
  year :: int
  month :: int
  day :: int

record website_data =
  accessible :: "bool option"
  error :: "string option"
  title :: "string option"
  copyright_years :: "int list option"
  latest_copyright :: "int option"
  has_blog :: "bool option"
  has_careers :: "bool option"
  last_updated :: "datetime option"
  text_length :: "nat option"

record business_data =
  name :: "string option"
  industry :: "string option"
  location :: "string option"
  website :: "string option"
  founded_year :: "int option"
  estimated_revenue :: "int option"
  employees :: "int option"
  website_data :: "website_data option"

text \<open>The dictionary \<open>{}\<close>, the default of \<open>business_data.get('website_data', {})\<close>.\<close>

definition empty_website_data :: website_data where
  "empty_website_data =
     \<lparr>accessible = None, error = None, title = None, copyright_years = None,
      latest_copyright = None, has_blog = None, has_careers = None, last_updated = None,
      text_length = None\<rparr>"

text \<open>
  The category strings \<open>"High"\<close>, \<open>"Medium"\<close>, \<open>"Low"\<close> and the priority markers (the red,
  yellow and green circle glyphs) of the result.
\<close>

datatype category = High | Medium | Low

datatype priority = Red_Circle | Yellow_Circle | Green_Circle

record score_result =
  score :: real
  category :: category
  priority :: priority
  factors :: "string list"
  raw_score :: int

section \<open>calculate\_succession\_score\<close>

text \<open>
  The function keeps two locals, \<open>score\<close> and \<open>factors\<close>; each block of the source is a
  function from their values before the block to their values after it. The year read from
  the clock, \<open>datetime.now().year\<close>, is the parameter \<open>current_year\<close>.
\<close>

type_synonym tally = "int \<times> string list"

text \<open>Age of business: \<open>if business_data.get('founded_year')\<close> is false for 0 as for an absent key.\<close>

fun age_rule :: "int \<Rightarrow> business_data \<Rightarrow> tally \<Rightarrow> tally" where
  "age_rule current_year b (s, fs) =
     (case founded_year b of
        None \<Rightarrow> (s, fs)
      | Some fy \<Rightarrow>
          if fy = 0 then (s, fs)
          else let age = current_year - fy
               in if age \<ge> 20
                  then (s + 25, fs @ [''Established business ('' @ str_int age @ '' years)''])
                  else if age \<ge> 10
                  then (s + 15, fs @ [''Mature business ('' @ str_int age @ '' years)''])
                  else (s, fs))"

text \<open>Old copyright dates: \<open>latest_copyright and current_year - latest_copyright >= 3\<close>.\<close>

fun copyright_rule :: "int \<Rightarrow> website_data \<Rightarrow> tally \<Rightarrow> tally" where
  "copyright_rule current_year wd (s, fs) =
     (case latest_copyright wd of
        None \<Rightarrow> (s, fs)
      | Some lc \<Rightarrow>
          if lc \<noteq> 0 \<and> current_year - lc \<ge> 3
          then (s + 15, fs @ [''Copyright last updated '' @ str_int lc])
          else (s, fs))"

text \<open>\<open>if not website_data.get('has_blog')\<close>: an absent key counts as false.\<close>

fun blog_rule :: "website_data \<Rightarrow> tally \<Rightarrow> tally" where
  "blog_rule wd (s, fs) =
     (if has_blog wd \<noteq> Some True then (s + 10, fs @ [''No blog/news section'']) else (s, fs))"

fun careers_rule :: "website_data \<Rightarrow> tally \<Rightarrow> tally" where
  "careers_rule wd (s, fs) =
     (if has_careers wd \<noteq> Some True then (s + 10, fs @ [''No careers/hiring page''])
      else (s, fs))"

text \<open>Website analysis: \<open>if not website_data.get('accessible')\<close>, else the three rules above.\<close>

fun website_rule :: "int \<Rightarrow> website_data \<Rightarrow> tally \<Rightarrow> tally" where
  "website_rule current_year wd (s, fs) =
     (if accessible wd \<noteq> Some True then (s + 20, fs @ [''Website inaccessible/outdated''])
      else careers_rule wd (blog_rule wd (copyright_rule current_year wd (s, fs))))"

definition high_succession_industries :: "string list" where
  "high_succession_industries =
     [''construction'', ''manufacturing'', ''automotive'', ''plumbing'',
      ''electrical'', ''hvac'', ''roofing'', ''landscaping'', ''trucking'']"

text \<open>The \<open>for high_industry in ...\<close> loop; its \<open>break\<close> is the branch without a recursive call.\<close>

fun industry_loop :: "string \<Rightarrow> string list \<Rightarrow> tally \<Rightarrow> tally" where
  "industry_loop ind [] (s, fs) = (s, fs)"
| "industry_loop ind (high_industry # rest) (s, fs) =
     (if py_in high_industry ind
      then (s + 15, fs @ [''High-succession industry ('' @ ind @ '')''])
      else industry_loop ind rest (s, fs))"

definition industry_rule :: "business_data \<Rightarrow> tally \<Rightarrow> tally" where
  "industry_rule b st =
     industry_loop (py_lower (case industry b of None \<Rightarrow> [] | Some i \<Rightarrow> i))
       high_succession_industries st"

fun revenue_rule :: "business_data \<Rightarrow> tally \<Rightarrow> tally" where
  "revenue_rule b (s, fs) =
     (let revenue = (case estimated_revenue b of None \<Rightarrow> 0 | Some r \<Rightarrow> r)
      in if 2000000 \<le> revenue \<and> revenue \<le> 10000000
         then (s + 20, fs @ [''Target revenue range ($2M-$10M)''])
         else (s, fs))"

definition target_states :: "string list" where
  "target_states = [''va'', ''virginia'', ''co'', ''colorado'', ''tn'', ''tennessee'']"

text \<open>Location factors: \<open>any(state in location for state in [...])\<close> on the lower-cased location.\<close>

fun location_rule :: "business_data \<Rightarrow> tally \<Rightarrow> tally" where
  "location_rule b (s, fs) =
     (let loc = py_lower (case location b of None \<Rightarrow> [] | Some l \<Rightarrow> l)
      in if list_ex (\<lambda>state. py_in state loc) target_states
         then (s + 10, fs @ [''Target geographic region''])
         else (s, fs))"

text \<open>The rules in the order of the source, from \<open>score = 0\<close> and \<open>factors = []\<close>.\<close>

definition run_rules :: "int \<Rightarrow> business_data \<Rightarrow> tally" where
  "run_rules current_year b =
     location_rule b (revenue_rule b (industry_rule b
       (website_rule current_year
          (case website_data b of None \<Rightarrow> empty_website_data | Some wd \<Rightarrow> wd)
          (age_rule current_year b (0, [])))))"

definition max_possible_score :: int where
  "max_possible_score = 115"

text \<open>
  The floats of the source are exact reals here. \<open>round(x, 1)\<close> rounds to one decimal, a
  tie going to the even neighbour.
\<close>

definition round_half_even :: "real \<Rightarrow> int" where
  "round_half_even x =
     (let f = \<lfloor>x\<rfloor>; d = x - of_int f
      in if d < 1 / 2 then f else if 1 / 2 < d then f + 1
         else if even f then f else f + 1)"

definition py_round1 :: "real \<Rightarrow> real" where
  "py_round1 x = of_int (round_half_even (x * 10)) / 10"

definition normalized_score :: "int \<Rightarrow> real" where
  "normalized_score s = min 100 ((of_int s / of_int max_possible_score) * 100)"

text \<open>Categorize score: the \<open>if\<close>/\<open>elif\<close>/\<open>else\<close> on the normalized score.\<close>

definition categorize :: "real \<Rightarrow> category \<times> priority" where
  "categorize n =
     (if n \<ge> 70 then (High, Red_Circle)
      else if n \<ge> 40 then (Medium, Yellow_Circle)
      else (Low, Green_Circle))"

definition calculate_succession_score :: "int \<Rightarrow> business_data \<Rightarrow> score_result" where
  "calculate_succession_score current_year b =
     (let st = run_rules current_year b;
          n = normalized_score (fst st)
      in \<lparr>score = py_round1 n,
          category = fst (categorize n),
          priority = snd (categorize n),
          factors = snd st,
          raw_score = fst st\<rparr>)"

text \<open>
  The point value of the rule that writes a factor of a given form, read off the pairs of
  \<open>score += ...\<close> and \<open>factors.append(...)\<close> in the source; 0 for any other string.
\<close>

definition factor_points :: "string \<Rightarrow> int" where
  "factor_points f =
     (if starts_with ''Established business ('' f then 25
      else if starts_with ''Mature business ('' f then 15
      else if f = ''Website inaccessible/outdated'' then 20
      else if starts_with ''Copyright last updated '' f then 15
      else if f = ''No blog/news section'' then 10
      else if f = ''No careers/hiring page'' then 10
      else if starts_with ''High-succession industry ('' f then 15
      else if f = ''Target revenue range ($2M-$10M)'' then 20
      else if f = ''Target geographic region'' then 10
      else 0)"

section \<open>The region filter of the caller\<close>

text \<open>
  \<open>main\<close> filters the records by region before it scores them:
  \<open>business_region = business['location'].split(',')[-1].strip()\<close>, and a record passes
  when \<open>region.lower() in business_region.lower()\<close> for one of the selected regions.
\<close>

definition whitespace_chars :: string where
  "whitespace_chars =
     [CHR 0x09, CHR 0x0A, CHR 0x0B, CHR 0x0C, CHR 0x0D, CHR 0x1C, CHR 0x1D, CHR 0x1E,
      CHR 0x1F, CHR 0x20, CHR 0x85, CHR 0xA0]"

definition is_space :: "char \<Rightarrow> bool" where
  "is_space c = (c \<in> set whitespace_chars)"

text \<open>\<open>s.strip()\<close>\<close>

definition py_strip :: "string \<Rightarrow> string" where
  "py_strip s = rev (dropWhile is_space (rev (dropWhile is_space s)))"

text \<open>\<open>s.split(d)\<close> for a one-character separator: never an empty list.\<close>

fun py_split :: "char \<Rightarrow> string \<Rightarrow> string list" where
  "py_split d [] = [[]]"
| "py_split d (c # cs) =
     (if c = d then [] # py_split d cs
      else (case py_split d cs of w # ws \<Rightarrow> (c # w) # ws | [] \<Rightarrow> [[c]]))"

definition business_region :: "string \<Rightarrow> string" where
  "business_region loc = py_strip (last (py_split (CHR '','') loc))"

definition region_match :: "string list \<Rightarrow> string \<Rightarrow> bool" where
  "region_match regions loc =
     list_ex (\<lambda>region. py_in (py_lower region) (py_lower (business_region loc))) regions"

section \<open>scrape\_website\_data\<close>

text \<open>
  The page is fetched by \<open>requests.get\<close> and parsed by \<open>BeautifulSoup\<close>; both are
  libraries, and parameters here. Either returns a value or raises an exception \<open>e\<close>, of
  which the function reads \<open>str(e)\<close> only. Of the parsed page the function reads three
  things: the text of the first \<open>title\<close> element when there is one, the page's text, and the
  \<open>href\<close> values of its \<open>a\<close> and \<open>link\<close> elements in document order.
\<close>

datatype exn = Exception (str: string)

record soup =
  find_title :: "string option"
  get_text :: string
  link_hrefs :: "string list"

definition is_digit :: "char \<Rightarrow> bool" where
  "is_digit c = (c \<in> set ''0123456789'')"

text \<open>The group \<open>(\d{4})\<close> at the head of a string.\<close>

fun four_digits :: "string \<Rightarrow> string option" where
  "four_digits (a # b # c # d # rest) =
     (if is_digit a \<and> is_digit b \<and> is_digit c \<and> is_digit d then Some [a, b, c, d] else None)"
| "four_digits s = None"

text \<open>
  \<open>.*?(\d{4})\<close> from the head of a string: the first four digits in a row that no line
  break precedes, with what follows them.
\<close>

fun lazy_year :: "string \<Rightarrow> (string \<times> string) option" where
  "lazy_year [] = None"
| "lazy_year (c # cs) =
     (case four_digits (c # cs) of
        Some y \<Rightarrow> Some (y, drop 4 (c # cs))
      | None \<Rightarrow> if c = CHR 0x0A then None else lazy_year cs)"

lemma lazy_year_shorter: "lazy_year s = Some (y, rest) \<Longrightarrow> length rest < length s"
  by (induction s) (auto split: option.splits if_splits)

text \<open>
  \<open>re.findall(lit + r'.*?(\d{4})', s)\<close> for a literal \<open>lit\<close>: the groups of the matches from
  left to right, each search starting where the last match ended.
\<close>

function findall_year :: "string \<Rightarrow> string \<Rightarrow> string list" where
  "findall_year lit [] = []"
| "findall_year lit (c # cs) =
     (if starts_with lit (c # cs)
      then (case lazy_year (drop (length lit) (c # cs)) of
              Some (y, rest) \<Rightarrow> y # findall_year lit rest
            | None \<Rightarrow> findall_year lit cs)
      else findall_year lit cs)"
  by pat_completeness auto
termination
proof (relation "measure (\<lambda>(lit, s). length s)")
  fix lit :: string and c cs x2 y rest
  assume "lazy_year (drop (length lit) (c # cs)) = Some x2" "(y, rest) = x2"
  then have "length rest < length (drop (length lit) (c # cs))"
    using lazy_year_shorter by metis
  then show "((lit, rest), (lit, c # cs)) \<in> measure (\<lambda>(lit, s). length s)"
    by simp
qed auto

definition copyright_matches :: "string \<Rightarrow> string list" where
  "copyright_matches text_content =
     findall_year ''copyright'' text_content @ findall_year [CHR 0xA9] text_content"

text \<open>
  \<open>int(s)\<close> on a string of decimal digits; any other string is left to \<open>ValueError\<close>
  (Python reads signs, blanks and underscores too, which no group of digits holds).
\<close>

definition digit_value :: "char \<Rightarrow> int" where
  "digit_value c = (case map_of (zip ''0123456789'' [0, 1, 2, 3, 4, 5, 6, 7, 8, 9]) c of
                      Some v \<Rightarrow> v | None \<Rightarrow> 0)"

definition digits_value :: "string \<Rightarrow> int" where
  "digits_value s = foldl (\<lambda>n c. 10 * n + digit_value c) 0 s"

definition py_int :: "string \<Rightarrow> exn + int" where
  "py_int s =
     (if s \<noteq> [] \<and> list_all is_digit s then Inr (digits_value s)
      else Inl (Exception (''invalid literal for int() with base 10: '' @ s)))"

text \<open>
  \<open>[int(year) for year in copyright_matches if 1990 <= int(year) <= 2024]\<close>; it raises
  what \<open>int\<close> raises.
\<close>

definition plausible :: "int \<Rightarrow> bool" where
  "plausible n = (1990 \<le> n \<and> n \<le> 2024)"

fun window_years :: "string list \<Rightarrow> exn + int list" where
  "window_years [] = Inr []"
| "window_years (y # ys) =
     (case py_int y of
        Inl e \<Rightarrow> Inl e
      | Inr n \<Rightarrow>
          (case window_years ys of
             Inl e \<Rightarrow> Inl e
           | Inr rest \<Rightarrow> Inr (if plausible n then n # rest else rest)))"

text \<open>\<open>max(copyright_years) if copyright_years else None\<close>\<close>

fun latest_of :: "int list \<Rightarrow> int option" where
  "latest_of [] = None"
| "latest_of (y # ys) = Some (foldl max y ys)"

text \<open>
  \<open>re.compile(r'p1|p2|...', re.I).search(s)\<close> for literal alternatives in lower case, as
  \<open>soup.find(['a', 'link'], href=...)\<close> applies it to each \<open>href\<close>.
\<close>

definition search_ignorecase :: "string list \<Rightarrow> string \<Rightarrow> bool" where
  "search_ignorecase alternatives s = list_ex (\<lambda>p. py_in p (py_lower s)) alternatives"

text \<open>\<open>\d{1,2}/\<close> at the head of a string: the text matched and what follows it.\<close>

definition digits_slash :: "string \<Rightarrow> (string \<times> string) option" where
  "digits_slash s =
     (case s of
        a # b # rest \<Rightarrow>
          if is_digit a \<and> is_digit b \<and> starts_with ''/'' rest then Some ([a, b, CHR ''/''], tl rest)
          else if is_digit a \<and> b = CHR ''/'' then Some ([a, b], rest)
          else None
      | _ \<Rightarrow> None)"

text \<open>The group \<open>(\d{1,2}/\d{1,2}/\d{4})\<close> at the head of a string.\<close>

definition date_at :: "string \<Rightarrow> string option" where
  "date_at s =
     (case digits_slash s of
        None \<Rightarrow> None
      | Some (m, r1) \<Rightarrow>
          (case digits_slash r1 of
             None \<Rightarrow> None
           | Some (d, r2) \<Rightarrow>
               (case four_digits r2 of None \<Rightarrow> None | Some y \<Rightarrow> Some (m @ d @ y))))"

text \<open>\<open>lit:?\s*(\d{1,2}/\d{1,2}/\d{4})\<close> at the head of a string, for a literal \<open>lit\<close>.\<close>

definition updated_at :: "string \<Rightarrow> string \<Rightarrow> string option" where
  "updated_at lit s =
     (if starts_with lit s
      then let r = drop (length lit) s;
               r' = (if starts_with '':'' r then tl r else r)
           in date_at (dropWhile is_space r')
      else None)"

text \<open>The first match of a pattern in a string, \<open>re.findall(...)[0]\<close>: the leftmost one.\<close>

fun first_match :: "(string \<Rightarrow> string option) \<Rightarrow> string \<Rightarrow> string option" where
  "first_match pat [] = pat []"
| "first_match pat (c # cs) =
     (case pat (c # cs) of Some g \<Rightarrow> Some g | None \<Rightarrow> first_match pat cs)"

definition date_patterns :: "(string \<Rightarrow> string option) list" where
  "date_patterns = [updated_at ''last updated'', updated_at ''updated'', date_at]"

definition is_leap :: "int \<Rightarrow> bool" where
  "is_leap y = (y mod 4 = 0 \<and> (y mod 100 \<noteq> 0 \<or> y mod 400 = 0))"

definition days_in_month :: "int \<Rightarrow> int \<Rightarrow> int" where
  "days_in_month y m =
     (if m = 2 then (if is_leap y then 29 else 28)
      else if m \<in> {4, 6, 9, 11} then 30 else 31)"

text \<open>
  \<open>datetime.strptime(g, '%m/%d/%Y')\<close> on a string \<open>g\<close> that the date pattern matched;
  \<open>None\<close> is for \<open>ValueError\<close>.
\<close>

definition strptime :: "string \<Rightarrow> datetime option" where
  "strptime g =
     (case map digits_value (py_split (CHR ''/'') g) of
        [m, d, y] \<Rightarrow>
          if 1 \<le> m \<and> m \<le> 12 \<and> 1 \<le> y \<and> 1 \<le> d \<and> d \<le> days_in_month y m
          then Some \<lparr>year = y, month = m, day = d\<rparr>
          else None
      | _ \<Rightarrow> None)"

text \<open>
  The \<open>for pattern in date_patterns\<close> loop: \<open>break\<close> at the first pattern whose first match
  parses, \<open>continue\<close> past a pattern with no match or with a first match that does not.
\<close>

fun scan_patterns :: "(string \<Rightarrow> string option) list \<Rightarrow> string \<Rightarrow> datetime option" where
  "scan_patterns [] text_content = None"
| "scan_patterns (pat # pats) text_content =
     (case first_match pat text_content of
        None \<Rightarrow> scan_patterns pats text_content
      | Some g \<Rightarrow>
          (case strptime g of
             Some d \<Rightarrow> Some d
           | None \<Rightarrow> scan_patterns pats text_content))"

definition with_scheme :: "string \<Rightarrow> string" where
  "with_scheme url =
     (if \<not> (starts_with ''http://'' url \<or> starts_with ''https://'' url)
      then ''https://'' @ url else url)"

text \<open>The body of the \<open>try\<close>: \<open>Inl e\<close> when a step raises \<open>e\<close>.\<close>

definition scrape_body ::
    "(string \<Rightarrow> exn + 'r) \<Rightarrow> ('r \<Rightarrow> exn + soup) \<Rightarrow> string \<Rightarrow> exn + website_data" where
  "scrape_body get parse url =
     (case get (with_scheme url) of
        Inl e \<Rightarrow> Inl e
      | Inr response \<Rightarrow>
          (case parse response of
             Inl e \<Rightarrow> Inl e
           | Inr sp \<Rightarrow>
               (let title_text = (case find_title sp of Some t \<Rightarrow> py_strip t | None \<Rightarrow> []);
                    text_content = py_lower (get_text sp)
                in case window_years (copyright_matches text_content) of
                     Inl e \<Rightarrow> Inl e
                   | Inr years \<Rightarrow>
                       Inr \<lparr>accessible = Some True,
                            error = None,
                            title = Some title_text,
                            copyright_years = Some years,
                            latest_copyright = latest_of years,
                            has_blog = Some (list_ex (search_ignorecase [''blog'', ''news''])
                                               (link_hrefs sp)),
                            has_careers = Some (list_ex
                                               (search_ignorecase [''career'', ''job'', ''hiring''])
                                               (link_hrefs sp)),
                            last_updated = scan_patterns date_patterns text_content,
                            text_length = Some (length text_content)\<rparr>)))"

text \<open>The \<open>except Exception as e\<close> clause turns every exception of the body into a result.\<close>

definition scrape_website_data ::
    "(string \<Rightarrow> exn + 'r) \<Rightarrow> ('r \<Rightarrow> exn + soup) \<Rightarrow> string \<Rightarrow> website_data" where
  "scrape_website_data get parse url =
     (case scrape_body get parse url of
        Inr result \<Rightarrow> result
      | Inl e \<Rightarrow>
          \<lparr>accessible = Some False,
           error = Some (str e),
           title = Some [],
           copyright_years = Some [],
           latest_copyright = None,
           has_blog = Some False,
           has_careers = Some False,
           last_updated = None,
           text_length = Some 0\<rparr>)"

section \<open>Sample inputs\<close>

text \<open>The dictionary \<open>{}\<close> as a business record.\<close>

definition empty_business :: business_data where
  "empty_business =
     \<lparr>name = None, industry = None, location = None, website = None, founded_year = None,
      estimated_revenue = None, employees = None, website_data = None\<rparr>"

text \<open>
  The second record of \<open>load_sample_data\<close>, with the signals \<open>main\<close> attaches to a record
  (copyright 2019, no blog, no careers page).
\<close>

definition stale_site :: website_data where
  "stale_site =
     empty_website_data\<lparr>accessible := Some True, latest_copyright := Some 2019,
       has_blog := Some False, has_careers := Some False\<rparr>"

definition blue_ridge_hvac :: business_data where
  "blue_ridge_hvac =
     \<lparr>name = Some ''Blue Ridge HVAC Services'',
      industry = Some ''HVAC Contracting'',
      location = Some ''Charlottesville, VA'',
      website = Some ''blueridgehvac.net'',
      founded_year = Some 1995,
      estimated_revenue = Some 3200000,
      employees = Some 18,
      website_data = Some stale_site\<rparr>"

text \<open>A site that is reachable, has a blog and a careers page and no copyright year.\<close>

definition active_site :: website_data where
  "active_site =
     empty_website_data\<lparr>accessible := Some True, has_blog := Some True,
       has_careers := Some True\<rparr>"

text \<open>A record outside the three target states, whose city name holds \<open>co\<close>.\<close>

definition san_francisco :: business_data where
  "san_francisco =
     empty_business\<lparr>name := Some ''Bay Data Recovery'', location := Some ''San Francisco, CA''\<rparr>"

text \<open>The signals of \<open>stale_site\<close> for a page that could not be fetched.\<close>

definition unreachable_site :: website_data where
  "unreachable_site = stale_site\<lparr>accessible := Some False\<rparr>"

definition founded_2005 :: business_data where
  "founded_2005 = empty_business\<lparr>founded_year := Some 2005\<rparr>"

definition hvac_and_plumbing :: business_data where
  "hvac_and_plumbing = empty_business\<lparr>industry := Some ''HVAC and Plumbing''\<rparr>"

text \<open>The copyright matches of a parsed page: those of its lower-cased text.\<close>

definition page_matches :: "soup \<Rightarrow> string list" where
  "page_matches sp = copyright_matches (py_lower (get_text sp))"

text \<open>
  Two fetches and a parser for the examples: one that times out, one that returns the
  content of two small pages, and the parse of a page that is text without markup.
\<close>

definition timed_out :: "string \<Rightarrow> exn + string" where
  "timed_out url = Inl (Exception ''Read timed out. (read timeout=10)'')"

definition blue_ridge_page :: string where
  "blue_ridge_page = [CHR 0xA9] @ '' 1899 Blue Ridge. Copyright 2015-2099 All rights reserved''"

definition trucking_page :: string where
  "trucking_page = ''Copyright 2015 Tennessee Trucking Co''"

definition small_pages :: "string \<Rightarrow> exn + string" where
  "small_pages url =
     (if url = ''https://blueridgehvac.net'' then Inr blue_ridge_page
      else if url = ''http://tntrucking.com'' then Inr trucking_page
      else Inl (Exception ''Name or service not known''))"

text \<open>
  A fetch that returns the body of a JSON response, which is not HTML. \<open>requests.get\<close>
  returns it as it returns a page, and \<open>html.parser\<close> reads it as text without markup.
\<close>

definition json_response :: "string \<Rightarrow> exn + string" where
  "json_response url = Inr ''[1, 2, 3]''"

definition text_soup :: "string \<Rightarrow> soup" where
  "text_soup content = \<lparr>find_title = None, get_text = content, link_hrefs = []\<rparr>"

definition plain_text :: "string \<Rightarrow> exn + soup" where
  "plain_text content = Inr (text_soup content)"

section \<open>What each rule adds\<close>

lemma starts_with_append [simp]: "starts_with p (p @ s)"
  by (induction p) auto

lemma age_rule_adds:
  "\<exists>p fs'. age_rule cy b st = (fst st + p, snd st @ fs') \<and> 0 \<le> p \<and> p \<le> 25 \<and>
     sum_list (map factor_points fs') = p \<and>
     list_all (\<lambda>f. 0 < factor_points f) fs' \<and> (p = 0 \<longleftrightarrow> fs' = [])"
  by (cases st) (simp add: factor_points_def Let_def split: option.splits)

lemma copyright_rule_adds:
  "\<exists>p fs'. copyright_rule cy wd st = (fst st + p, snd st @ fs') \<and> 0 \<le> p \<and> p \<le> 15 \<and>
     sum_list (map factor_points fs') = p \<and>
     list_all (\<lambda>f. 0 < factor_points f) fs' \<and> (p = 0 \<longleftrightarrow> fs' = [])"
  by (cases st) (simp add: factor_points_def Let_def split: option.splits)

lemma blog_rule_adds:
  "\<exists>p fs'. blog_rule wd st = (fst st + p, snd st @ fs') \<and> 0 \<le> p \<and> p \<le> 10 \<and>
     sum_list (map factor_points fs') = p \<and>
     list_all (\<lambda>f. 0 < factor_points f) fs' \<and> (p = 0 \<longleftrightarrow> fs' = [])"
  by (cases st) (simp add: factor_points_def)

lemma careers_rule_adds:
  "\<exists>p fs'. careers_rule wd st = (fst st + p, snd st @ fs') \<and> 0 \<le> p \<and> p \<le> 10 \<and>
     sum_list (map factor_points fs') = p \<and>
     list_all (\<lambda>f. 0 < factor_points f) fs' \<and> (p = 0 \<longleftrightarrow> fs' = [])"
  by (cases st) (simp add: factor_points_def)

lemma industry_loop_adds:
  "\<exists>p fs'. industry_loop ind hs st = (fst st + p, snd st @ fs') \<and> 0 \<le> p \<and> p \<le> 15 \<and>
     sum_list (map factor_points fs') = p \<and>
     list_all (\<lambda>f. 0 < factor_points f) fs' \<and> (p = 0 \<longleftrightarrow> fs' = [])"
  by (induction hs) (cases st; simp add: factor_points_def)+

lemma revenue_rule_adds:
  "\<exists>p fs'. revenue_rule b st = (fst st + p, snd st @ fs') \<and> 0 \<le> p \<and> p \<le> 20 \<and>
     sum_list (map factor_points fs') = p \<and>
     list_all (\<lambda>f. 0 < factor_points f) fs' \<and> (p = 0 \<longleftrightarrow> fs' = [])"
  by (cases st) (simp add: factor_points_def Let_def)

lemma location_rule_adds:
  "\<exists>p fs'. location_rule b st = (fst st + p, snd st @ fs') \<and> 0 \<le> p \<and> p \<le> 10 \<and>
     sum_list (map factor_points fs') = p \<and>
     list_all (\<lambda>f. 0 < factor_points f) fs' \<and> (p = 0 \<longleftrightarrow> fs' = [])"
  by (cases st) (simp add: factor_points_def Let_def)


lemma website_rule_adds:
  "\<exists>p fs'. website_rule cy wd st = (fst st + p, snd st @ fs') \<and> 0 \<le> p \<and> p \<le> 35 \<and>
     sum_list (map factor_points fs') = p \<and>
     list_all (\<lambda>f. 0 < factor_points f) fs' \<and> (p = 0 \<longleftrightarrow> fs' = [])"
proof (cases "accessible wd \<noteq> Some True")
  case True
  then show ?thesis
    by (cases st) (simp add: factor_points_def)
next
  case False
  obtain p1 f1 where 1: "copyright_rule cy wd st = (fst st + p1, snd st @ f1)"
      "0 \<le> p1" "p1 \<le> 15" "sum_list (map factor_points f1) = p1" "p1 = 0 \<longleftrightarrow> f1 = []"
      "list_all (\<lambda>f. 0 < factor_points f) f1"
    using copyright_rule_adds [of cy wd st] by auto
  obtain p2 f2 where 2:
      "blog_rule wd (fst st + p1, snd st @ f1) = (fst st + p1 + p2, snd st @ f1 @ f2)"
      "0 \<le> p2" "p2 \<le> 10" "sum_list (map factor_points f2) = p2" "p2 = 0 \<longleftrightarrow> f2 = []"
      "list_all (\<lambda>f. 0 < factor_points f) f2"
    using blog_rule_adds [of wd "(fst st + p1, snd st @ f1)"] by auto
  obtain p3 f3 where 3:
      "careers_rule wd (fst st + p1 + p2, snd st @ f1 @ f2)
        = (fst st + p1 + p2 + p3, snd st @ f1 @ f2 @ f3)"
      "0 \<le> p3" "p3 \<le> 10" "sum_list (map factor_points f3) = p3" "p3 = 0 \<longleftrightarrow> f3 = []"
      "list_all (\<lambda>f. 0 < factor_points f) f3"
    using careers_rule_adds [of wd "(fst st + p1 + p2, snd st @ f1 @ f2)"] by auto
  have "website_rule cy wd st = (fst st + (p1 + p2 + p3), snd st @ (f1 @ f2 @ f3))"
    using False 1(1) 2(1) 3(1) by (cases st) simp
  moreover have "0 \<le> p1 + p2 + p3" "p1 + p2 + p3 \<le> 35"
    using 1 2 3 by linarith+
  moreover have "sum_list (map factor_points (f1 @ f2 @ f3)) = p1 + p2 + p3"
    using 1(4) 2(4) 3(4) by simp
  moreover have "list_all (\<lambda>f. 0 < factor_points f) (f1 @ f2 @ f3)"
    using 1(6) 2(6) 3(6) by simp
  moreover have "p1 + p2 + p3 = 0 \<longleftrightarrow> f1 @ f2 @ f3 = []"
    using 1(2,5) 2(2,5) 3(2,5) by auto
  ultimately show ?thesis by blast
qed

lemma industry_rule_adds:
  "\<exists>p fs'. industry_rule b st = (fst st + p, snd st @ fs') \<and> 0 \<le> p \<and> p \<le> 15 \<and>
     sum_list (map factor_points fs') = p \<and>
     list_all (\<lambda>f. 0 < factor_points f) fs' \<and> (p = 0 \<longleftrightarrow> fs' = [])"
  unfolding industry_rule_def by (rule industry_loop_adds)

text \<open>
  All the rules together: the website block adds at most 15 + 10 + 10 = 35 (its other
  branch adds 20), so the rules add at most 25 + 35 + 15 + 20 + 10 = 105.
\<close>

lemma run_rules_tally:
  "\<exists>p fs'. run_rules cy b = (p, fs') \<and> 0 \<le> p \<and> p \<le> 105 \<and>
     sum_list (map factor_points fs') = p \<and>
     list_all (\<lambda>f. 0 < factor_points f) fs' \<and> (p = 0 \<longleftrightarrow> fs' = [])"
proof -
  define wd where "wd = (case website_data b of None \<Rightarrow> empty_website_data | Some w \<Rightarrow> w)"
  obtain p1 f1 where 1: "age_rule cy b (0, []) = (p1, f1)"
      "0 \<le> p1" "p1 \<le> 25" "sum_list (map factor_points f1) = p1" "p1 = 0 \<longleftrightarrow> f1 = []"
      "list_all (\<lambda>f. 0 < factor_points f) f1"
    using age_rule_adds [of cy b "(0, [])"] by auto
  obtain p2 f2 where 2: "website_rule cy wd (p1, f1) = (p1 + p2, f1 @ f2)"
      "0 \<le> p2" "p2 \<le> 35" "sum_list (map factor_points f2) = p2" "p2 = 0 \<longleftrightarrow> f2 = []"
      "list_all (\<lambda>f. 0 < factor_points f) f2"
    using website_rule_adds [of cy wd "(p1, f1)"] by auto
  obtain p3 f3 where 3: "industry_rule b (p1 + p2, f1 @ f2) = (p1 + p2 + p3, f1 @ f2 @ f3)"
      "0 \<le> p3" "p3 \<le> 15" "sum_list (map factor_points f3) = p3" "p3 = 0 \<longleftrightarrow> f3 = []"
      "list_all (\<lambda>f. 0 < factor_points f) f3"
    using industry_rule_adds [of b "(p1 + p2, f1 @ f2)"] by auto
  obtain p4 f4 where 4:
      "revenue_rule b (p1 + p2 + p3, f1 @ f2 @ f3) = (p1 + p2 + p3 + p4, f1 @ f2 @ f3 @ f4)"
      "0 \<le> p4" "p4 \<le> 20" "sum_list (map factor_points f4) = p4" "p4 = 0 \<longleftrightarrow> f4 = []"
      "list_all (\<lambda>f. 0 < factor_points f) f4"
    using revenue_rule_adds [of b "(p1 + p2 + p3, f1 @ f2 @ f3)"] by auto
  obtain p5 f5 where 5:
      "location_rule b (p1 + p2 + p3 + p4, f1 @ f2 @ f3 @ f4)
        = (p1 + p2 + p3 + p4 + p5, f1 @ f2 @ f3 @ f4 @ f5)"
      "0 \<le> p5" "p5 \<le> 10" "sum_list (map factor_points f5) = p5" "p5 = 0 \<longleftrightarrow> f5 = []"
      "list_all (\<lambda>f. 0 < factor_points f) f5"
    using location_rule_adds [of b "(p1 + p2 + p3 + p4, f1 @ f2 @ f3 @ f4)"] by auto
  have "run_rules cy b = (p1 + p2 + p3 + p4 + p5, f1 @ f2 @ f3 @ f4 @ f5)"
    unfolding run_rules_def wd_def [symmetric] by (simp only: 1(1) 2(1) 3(1) 4(1) 5(1))
  moreover have "0 \<le> p1 + p2 + p3 + p4 + p5" "p1 + p2 + p3 + p4 + p5 \<le> 105"
    using 1 2 3 4 5 by linarith+
  moreover have "sum_list (map factor_points (f1 @ f2 @ f3 @ f4 @ f5)) = p1 + p2 + p3 + p4 + p5"
    using 1(4) 2(4) 3(4) 4(4) 5(4) by simp
  moreover have "list_all (\<lambda>f. 0 < factor_points f) (f1 @ f2 @ f3 @ f4 @ f5)"
    using 1(6) 2(6) 3(6) 4(6) 5(6) by simp
  moreover have "p1 + p2 + p3 + p4 + p5 = 0 \<longleftrightarrow> f1 @ f2 @ f3 @ f4 @ f5 = []"
    using 1(2,5) 2(2,5) 3(2,5) 4(2,5) 5(2,5) by auto
  ultimately show ?thesis by blast
qed

lemma raw_score_run_rules [simp]:
  "raw_score (calculate_succession_score cy b) = fst (run_rules cy b)"
  by (simp add: calculate_succession_score_def Let_def)

lemma factors_run_rules [simp]:
  "factors (calculate_succession_score cy b) = snd (run_rules cy b)"
  by (simp add: calculate_succession_score_def Let_def)

section \<open>The sample inputs, evaluated\<close>

lemmas string_defs = py_lower_def py_lower_char_def upper_chars_def lower_chars_def

lemmas sample_defs = blue_ridge_hvac_def stale_site_def active_site_def
  empty_website_data_def empty_business_def

lemma run_rules_blue_ridge_hvac:
  "run_rules 2024 blue_ridge_hvac =
     (105, [''Established business (29 years)'', ''Copyright last updated 2019'',
            ''No blog/news section'', ''No careers/hiring page'',
            ''High-succession industry (hvac contracting)'',
            ''Target revenue range ($2M-$10M)'', ''Target geographic region''])"
  by (simp add: run_rules_def sample_defs string_defs industry_rule_def
        high_succession_industries_def target_states_def str_int_def str_nat.simps)

lemma score_blue_ridge_hvac:
  "calculate_succession_score 2024 blue_ridge_hvac =
     \<lparr>score = 913 / 10, category = High, priority = Red_Circle,
      factors = [''Established business (29 years)'', ''Copyright last updated 2019'',
            ''No blog/news section'', ''No careers/hiring page'',
            ''High-succession industry (hvac contracting)'',
            ''Target revenue range ($2M-$10M)'', ''Target geographic region''],
      raw_score = 105\<rparr>"
  by (simp add: calculate_succession_score_def run_rules_blue_ridge_hvac normalized_score_def
        max_possible_score_def py_round1_def round_half_even_def categorize_def)

text \<open>The same business with an active site is Medium; the empty record is Low.\<close>

lemma score_medium_and_low:
  "calculate_succession_score 2024 (blue_ridge_hvac\<lparr>website_data := Some active_site\<rparr>)
     = \<lparr>score = 609 / 10, category = Medium, priority = Yellow_Circle,
        factors = [''Established business (29 years)'',
            ''High-succession industry (hvac contracting)'',
            ''Target revenue range ($2M-$10M)'', ''Target geographic region''],
        raw_score = 70\<rparr>"
  "calculate_succession_score 2024 empty_business
     = \<lparr>score = 174 / 10, category = Low, priority = Green_Circle,
        factors = [''Website inaccessible/outdated''], raw_score = 20\<rparr>"
  by (simp_all add: calculate_succession_score_def run_rules_def sample_defs string_defs
        industry_rule_def high_succession_industries_def target_states_def str_int_def
        str_nat.simps normalized_score_def max_possible_score_def py_round1_def
        round_half_even_def categorize_def)

section \<open>The maximum of the raw score\<close>

text \<open>
  C1. The claim is that 115, the constant \<open>max_possible_score\<close> by which the score is
  normalized, is the largest raw score the rules can give: no input gives more, and some
  input gives 115. The code gives at most 105: the two age rules exclude each other, and so
  do the inaccessible-site rule (20) and the copyright, blog and careers rules (15 + 10 + 10).
  The sample record on which every rule but the inaccessible-site one fires gets 105, and
  the score 91.3.
\<close>

theorem raw_score_at_most_105:
  "raw_score (calculate_succession_score cy b) \<le> 105 \<and>
   raw_score (calculate_succession_score cy b) \<noteq> max_possible_score \<and>
   raw_score (calculate_succession_score 2024 blue_ridge_hvac) = 105 \<and>
   score (calculate_succession_score 2024 blue_ridge_hvac) = 913 / 10"
proof -
  obtain p fs' where "run_rules cy b = (p, fs')" "p \<le> 105"
    using run_rules_tally [of cy b] by blast
  then have "raw_score (calculate_succession_score cy b) \<le> 105"
    by simp
  then show ?thesis
    by (simp add: score_blue_ridge_hvac max_possible_score_def)
qed

section \<open>Points and factors\<close>

text \<open>
  C10. In every result the raw score is the sum of the point values of the rules whose
  factors are in the list, every factor in the list is the factor of a rule (its point
  value is positive), and the raw score is 0 exactly when the list is empty.
\<close>

theorem raw_score_sum_of_factor_points:
  "raw_score (calculate_succession_score cy b)
     = sum_list (map factor_points (factors (calculate_succession_score cy b))) \<and>
   list_all (\<lambda>f. 0 < factor_points f) (factors (calculate_succession_score cy b)) \<and>
   (raw_score (calculate_succession_score cy b) = 0
      \<longleftrightarrow> factors (calculate_succession_score cy b) = [])"
proof -
  obtain p fs' where "run_rules cy b = (p, fs')" "sum_list (map factor_points fs') = p"
      "list_all (\<lambda>f. 0 < factor_points f) fs'" "p = 0 \<longleftrightarrow> fs' = []"
    using run_rules_tally [of cy b] by blast
  then show ?thesis
    by simp
qed

section \<open>The geography rule\<close>

text \<open>
  C2. The claim is that the geography rule gives its 10 points exactly when the region
  token, the text after the last comma of the location, matches one of Virginia, VA,
  Colorado, CO, Tennessee, TN. The rule tests the six names as substrings of the whole
  lower-cased location. For the location \<open>San Francisco, CA\<close> the region token is \<open>CA\<close>,
  which holds none of the six names, and the region filter of \<open>main\<close>, which reads the
  region token, rejects the record; the rule still fires, on the \<open>co\<close> of the city name.
\<close>

theorem geography_rule_reads_whole_location:
  "location_rule san_francisco (0, []) = (10, [''Target geographic region'']) \<and>
   run_rules 2024 san_francisco
     = (30, [''Website inaccessible/outdated'', ''Target geographic region'']) \<and>
   business_region ''San Francisco, CA'' = ''CA'' \<and>
   \<not> list_ex (\<lambda>state. py_in state (py_lower (business_region ''San Francisco, CA'')))
         target_states \<and>
   \<not> region_match [''Virginia'', ''Colorado'', ''Tennessee''] ''San Francisco, CA''"
  by (simp add: san_francisco_def run_rules_def sample_defs string_defs industry_rule_def
        high_succession_industries_def target_states_def business_region_def py_strip_def
        is_space_def whitespace_chars_def region_match_def)

section \<open>Absent fields\<close>

lemma rules_ignore_website_data [simp]:
  "age_rule cy (b\<lparr>website_data := w\<rparr>) st = age_rule cy b st"
  "industry_rule (b\<lparr>website_data := w\<rparr>) st = industry_rule b st"
  "revenue_rule (b\<lparr>website_data := w\<rparr>) st = revenue_rule b st"
  "location_rule (b\<lparr>website_data := w\<rparr>) st = location_rule b st"
  by (cases st; simp add: industry_rule_def)+

lemma run_rules_with_site:
  "run_rules cy (b\<lparr>website_data := Some wd\<rparr>)
     = location_rule b (revenue_rule b (industry_rule b (website_rule cy wd (age_rule cy b (0, [])))))"
  by (simp add: run_rules_def)

lemma industry_rule_absent: "industry b = None \<Longrightarrow> industry_rule b st = st"
  by (cases st) (simp add: industry_rule_def high_succession_industries_def py_lower_def)

lemma location_rule_absent: "location b = None \<Longrightarrow> location_rule b st = st"
  by (cases st) (simp add: target_states_def py_lower_def)

lemma run_rules_empty_business:
  "run_rules cy empty_business = (20, [''Website inaccessible/outdated''])"
  by (simp add: run_rules_def sample_defs industry_rule_def high_succession_industries_def
        target_states_def py_lower_def)

lemma run_rules_active_site:
  "run_rules cy (empty_business\<lparr>website_data := Some active_site\<rparr>) = (0, [])"
  by (simp add: run_rules_def sample_defs industry_rule_def high_succession_industries_def
        target_states_def py_lower_def)

text \<open>
  C3, as claimed: every rule whose field is absent skips, and the record with no field at
  all gets the raw score 0. That record, the dictionary with no key, gets 20: with no
  website data the source scores the site as inaccessible.
\<close>

theorem all_absent_record_scores_20:
  "raw_score (calculate_succession_score 2024 empty_business) \<noteq> 0"
  by (simp add: run_rules_def sample_defs string_defs industry_rule_def
        high_succession_industries_def target_states_def)

text \<open>
  C3, amended. The age, copyright, industry, revenue and geography rules skip when the key
  of their field is missing. Missing website data is read as the empty dictionary; a
  missing \<open>accessible\<close> is scored as an inaccessible site (20 points and the factor), and
  on an accessible site a missing \<open>has_blog\<close> or \<open>has_careers\<close> is scored as false
  (10 points and the factor each). The dictionary with no key gets the raw score 20 in
  every year; the raw score is never negative, and it is 0 for a record with nothing but
  the signals of a reachable site with a blog and a careers page.
\<close>

theorem absent_fields:
  "(founded_year b = None \<longrightarrow> age_rule cy b st = st) \<and>
   (latest_copyright wd = None \<longrightarrow> copyright_rule cy wd st = st) \<and>
   (industry b = None \<longrightarrow> industry_rule b st = st) \<and>
   (estimated_revenue b = None \<longrightarrow> revenue_rule b st = st) \<and>
   (location b = None \<longrightarrow> location_rule b st = st) \<and>
   (accessible wd = None \<longrightarrow>
      website_rule cy wd st = (fst st + 20, snd st @ [''Website inaccessible/outdated''])) \<and>
   (has_blog wd = None \<longrightarrow> blog_rule wd st = (fst st + 10, snd st @ [''No blog/news section''])) \<and>
   (has_careers wd = None \<longrightarrow>
      careers_rule wd st = (fst st + 10, snd st @ [''No careers/hiring page''])) \<and>
   (website_data b = None \<longrightarrow>
      run_rules cy b = run_rules cy (b\<lparr>website_data := Some empty_website_data\<rparr>)) \<and>
   run_rules cy empty_business = (20, [''Website inaccessible/outdated'']) \<and>
   0 \<le> raw_score (calculate_succession_score cy b) \<and>
   raw_score (calculate_succession_score cy (empty_business\<lparr>website_data := Some active_site\<rparr>)) = 0"
proof -
  obtain p fs' where "run_rules cy b = (p, fs')" "0 \<le> p"
    using run_rules_tally [of cy b] by blast
  then have "0 \<le> raw_score (calculate_succession_score cy b)"
    by simp
  moreover have absent_site: "website_data b = None \<longrightarrow>
      run_rules cy b = run_rules cy (b\<lparr>website_data := Some empty_website_data\<rparr>)"
    by (simp add: run_rules_with_site) (simp add: run_rules_def)
  ultimately show ?thesis
    using absent_site by (cases st)
      (simp add: industry_rule_absent target_states_def py_lower_def run_rules_empty_business
         run_rules_active_site)
qed

theorem absent_fields_witness:
  "age_rule 2024 empty_business (0, []) = (0, []) \<and>
   copyright_rule 2024 empty_website_data (0, []) = (0, []) \<and>
   industry_rule empty_business (0, []) = (0, []) \<and>
   revenue_rule empty_business (0, []) = (0, []) \<and>
   location_rule empty_business (0, []) = (0, []) \<and>
   website_rule 2024 empty_website_data (0, []) = (20, [''Website inaccessible/outdated'']) \<and>
   blog_rule empty_website_data (0, []) = (10, [''No blog/news section'']) \<and>
   careers_rule empty_website_data (0, []) = (10, [''No careers/hiring page'']) \<and>
   run_rules 2024 empty_business
     = run_rules 2024 (empty_business\<lparr>website_data := Some empty_website_data\<rparr>) \<and>
   raw_score (calculate_succession_score 2024 empty_business) = 20"
proof -
  have h: "founded_year empty_business = None" "industry empty_business = None"
      "estimated_revenue empty_business = None" "location empty_business = None"
      "website_data empty_business = None" "latest_copyright empty_website_data = None"
      "accessible empty_website_data = None" "has_blog empty_website_data = None"
      "has_careers empty_website_data = None"
    by (simp_all add: sample_defs)
  note t = absent_fields [of empty_business 2024 "(0, [])" empty_website_data]
  from t h have skip: "age_rule 2024 empty_business (0, []) = (0, [])"
      "copyright_rule 2024 empty_website_data (0, []) = (0, [])"
      "industry_rule empty_business (0, []) = (0, [])"
      "revenue_rule empty_business (0, []) = (0, [])"
      "location_rule empty_business (0, []) = (0, [])"
    by blast+
  from t h have "website_rule 2024 empty_website_data (0, [])
        = (fst (0 :: int, [] :: string list) + 20,
           snd (0 :: int, [] :: string list) @ [''Website inaccessible/outdated''])"
      "blog_rule empty_website_data (0, [])
        = (fst (0 :: int, [] :: string list) + 10,
           snd (0 :: int, [] :: string list) @ [''No blog/news section''])"
      "careers_rule empty_website_data (0, [])
        = (fst (0 :: int, [] :: string list) + 10,
           snd (0 :: int, [] :: string list) @ [''No careers/hiring page''])"
    by blast+
  then have fire: "website_rule 2024 empty_website_data (0, [])
        = (20, [''Website inaccessible/outdated''])"
      "blog_rule empty_website_data (0, []) = (10, [''No blog/news section''])"
      "careers_rule empty_website_data (0, []) = (10, [''No careers/hiring page''])"
    by simp_all
  from t h have site: "run_rules 2024 empty_business
      = run_rules 2024 (empty_business\<lparr>website_data := Some empty_website_data\<rparr>)"
    by blast
  from t have "run_rules 2024 empty_business = (20, [''Website inaccessible/outdated''])"
    by blast
  then have total: "raw_score (calculate_succession_score 2024 empty_business) = 20"
    by simp
  show ?thesis
    by (intro conjI) (rule skip fire site total)+
qed

section \<open>An inaccessible site\<close>

lemma industry_loop_shift:
  "industry_loop ind hs st
     = (fst st + fst (industry_loop ind hs (0, [])), snd st @ snd (industry_loop ind hs (0, [])))"
  by (induction hs) (cases st; simp)+

lemma industry_rule_shift:
  "industry_rule b st = (fst st + fst (industry_rule b (0, [])), snd st @ snd (industry_rule b (0, [])))"
  unfolding industry_rule_def by (rule industry_loop_shift)

lemma revenue_rule_shift:
  "revenue_rule b st = (fst st + fst (revenue_rule b (0, [])), snd st @ snd (revenue_rule b (0, [])))"
  by (cases st) (simp add: Let_def)

lemma location_rule_shift:
  "location_rule b st = (fst st + fst (location_rule b (0, [])), snd st @ snd (location_rule b (0, [])))"
  by (cases st) (simp add: Let_def)

lemma website_rule_inaccessible:
  "accessible wd \<noteq> Some True \<Longrightarrow>
     website_rule cy wd st = (fst st + 20, snd st @ [''Website inaccessible/outdated''])"
  by (cases st) simp

lemma website_rule_active_site: "website_rule cy active_site st = st"
  by (cases st) (simp add: active_site_def empty_website_data_def)

lemma fst_rest_shift:
  "fst (location_rule b (revenue_rule b (industry_rule b (s + k, fs))))
     = fst (location_rule b (revenue_rule b (industry_rule b (s, fs')))) + k"
proof -
  have "fst (location_rule b (revenue_rule b (industry_rule b st)))
      = fst st + fst (industry_rule b (0, [])) + fst (revenue_rule b (0, []))
          + fst (location_rule b (0, []))" for st
    by (subst location_rule_shift, subst revenue_rule_shift, subst industry_rule_shift) simp
  then show ?thesis by simp
qed

text \<open>
  C5. When the signals say \<open>accessible = False\<close>, the website block adds 20 to the score
  and the one factor \<open>Website inaccessible/outdated\<close>, whatever the tally before it; the
  result is the same for any two such signal sets, whatever their copyright year, blog,
  careers and other fields; and the raw score is 20 more than with the signals of a site
  to which the website block adds nothing.
\<close>

theorem inaccessible_site_adds_20:
  "accessible wd = Some False \<Longrightarrow> accessible wd' = Some False \<Longrightarrow>
     website_rule cy wd st = (fst st + 20, snd st @ [''Website inaccessible/outdated'']) \<and>
     calculate_succession_score cy (b\<lparr>website_data := Some wd\<rparr>)
       = calculate_succession_score cy (b\<lparr>website_data := Some wd'\<rparr>) \<and>
     raw_score (calculate_succession_score cy (b\<lparr>website_data := Some wd\<rparr>))
       = raw_score (calculate_succession_score cy (b\<lparr>website_data := Some active_site\<rparr>)) + 20"
proof -
  assume a: "accessible wd = Some False" and a': "accessible wd' = Some False"
  have w: "website_rule cy wd t = (fst t + 20, snd t @ [''Website inaccessible/outdated''])"
    and w': "website_rule cy wd' t = (fst t + 20, snd t @ [''Website inaccessible/outdated''])"
    for t
    using a a' by (simp_all add: website_rule_inaccessible)
  have "run_rules cy (b\<lparr>website_data := Some wd\<rparr>) = run_rules cy (b\<lparr>website_data := Some wd'\<rparr>)"
    by (simp only: run_rules_with_site w w')
  then have same: "calculate_succession_score cy (b\<lparr>website_data := Some wd\<rparr>)
      = calculate_succession_score cy (b\<lparr>website_data := Some wd'\<rparr>)"
    by (simp add: calculate_succession_score_def)
  have "fst (run_rules cy (b\<lparr>website_data := Some wd\<rparr>))
      = fst (run_rules cy (b\<lparr>website_data := Some active_site\<rparr>)) + 20"
    unfolding run_rules_with_site w website_rule_active_site
    using fst_rest_shift [of b "fst (age_rule cy b (0, []))" 20 _ "snd (age_rule cy b (0, []))"]
    by simp
  then have plus: "raw_score (calculate_succession_score cy (b\<lparr>website_data := Some wd\<rparr>))
      = raw_score (calculate_succession_score cy (b\<lparr>website_data := Some active_site\<rparr>)) + 20"
    by (simp only: raw_score_run_rules)
  show ?thesis
    by (intro conjI) (rule w, rule same, rule plus)
qed

theorem inaccessible_site_adds_20_witness:
  "accessible unreachable_site = Some False \<and>
   latest_copyright unreachable_site = Some 2019 \<and>
   website_rule 2024 unreachable_site (25, [''Established business (29 years)''])
     = (45, [''Established business (29 years)'', ''Website inaccessible/outdated'']) \<and>
   calculate_succession_score 2024 (blue_ridge_hvac\<lparr>website_data := Some unreachable_site\<rparr>)
     = calculate_succession_score 2024
         (blue_ridge_hvac\<lparr>website_data := Some (empty_website_data\<lparr>accessible := Some False\<rparr>)\<rparr>) \<and>
   raw_score (calculate_succession_score 2024
       (blue_ridge_hvac\<lparr>website_data := Some unreachable_site\<rparr>))
     = raw_score (calculate_succession_score 2024
         (blue_ridge_hvac\<lparr>website_data := Some active_site\<rparr>)) + 20"
proof -
  have h: "accessible unreachable_site = Some False"
    and c: "latest_copyright unreachable_site = Some 2019"
    by (simp_all add: unreachable_site_def stale_site_def)
  have h': "accessible (empty_website_data\<lparr>accessible := Some False\<rparr>) = Some False"
    by simp
  note t = inaccessible_site_adds_20 [OF h h', of 2024
      "(25, [''Established business (29 years)''])" blue_ridge_hvac]
  have 1: "website_rule 2024 unreachable_site (25, [''Established business (29 years)''])
      = (45, [''Established business (29 years)'', ''Website inaccessible/outdated''])"
    using conjunct1 [OF t] by simp
  show ?thesis
    by (intro conjI) (rule h, rule c, rule 1, rule conjunct1 [OF conjunct2 [OF t]],
      rule conjunct2 [OF conjunct2 [OF t]])
qed

section \<open>The year of the clock\<close>

text \<open>
  C6, as claimed: the result is a function of the record and the signals alone. The source
  reads the year from the clock, and a business founded in 2005 is 19 years old in 2024
  (15 points) and 20 years old in 2025 (25 points).
\<close>

theorem result_changes_with_the_year:
  "raw_score (calculate_succession_score 2024 founded_2005)
     \<noteq> raw_score (calculate_succession_score 2025 founded_2005)"
  by (simp add: run_rules_def founded_2005_def sample_defs industry_rule_def
        high_succession_industries_def target_states_def py_lower_def str_int_def str_nat.simps)

lemma year_free_age_rule: "founded_year b = None \<Longrightarrow> age_rule cy b st = age_rule cy' b st"
  by (cases st) simp

lemma year_free_website_rule:
  "latest_copyright wd = None \<Longrightarrow> website_rule cy wd st = website_rule cy' wd st"
  by (cases st) simp

text \<open>
  C6, amended. The result is a function of the record, the signals and the current year:
  equal inputs in the same year give equal results. The year is read by the age rule and
  the copyright rule only: for a record with no founded year and no latest copyright year
  the result is the same in every year.
\<close>

theorem same_inputs_same_year_same_result:
  "(cy1 = cy2 \<and> b1 = b2 \<longrightarrow>
      calculate_succession_score cy1 b1 = calculate_succession_score cy2 b2) \<and>
   (founded_year b = None \<and>
    latest_copyright (case website_data b of None \<Rightarrow> empty_website_data | Some wd \<Rightarrow> wd) = None \<longrightarrow>
      calculate_succession_score cy b = calculate_succession_score cy' b)"
proof -
  have "run_rules cy b = run_rules cy' b"
    if "founded_year b = None"
      "latest_copyright (case website_data b of None \<Rightarrow> empty_website_data | Some wd \<Rightarrow> wd) = None"
    unfolding run_rules_def
    by (simp only: year_free_age_rule [OF that(1), of cy _ cy']
          year_free_website_rule [OF that(2), of cy _ cy'])
  then show ?thesis
    by (auto simp add: calculate_succession_score_def)
qed

theorem same_inputs_same_year_same_result_witness:
  "calculate_succession_score 2024 blue_ridge_hvac
     = calculate_succession_score 2024 (blue_ridge_hvac\<lparr>employees := Some 18\<rparr>) \<and>
   calculate_succession_score 2024 empty_business = calculate_succession_score 2025 empty_business"
proof -
  have e: "(2024 :: int) = 2024 \<and> blue_ridge_hvac = blue_ridge_hvac\<lparr>employees := Some 18\<rparr>"
    by (simp add: blue_ridge_hvac_def)
  have f: "founded_year empty_business = None \<and>
      latest_copyright (case website_data empty_business of None \<Rightarrow> empty_website_data
                        | Some wd \<Rightarrow> wd) = None"
    by (simp add: sample_defs)
  note t = same_inputs_same_year_same_result
      [of 2024 2024 blue_ridge_hvac "blue_ridge_hvac\<lparr>employees := Some 18\<rparr>"
          empty_business 2024 2025]
  show ?thesis
    using t e f by blast
qed

section \<open>Categories\<close>

text \<open>
  The source compares the normalized score with 70 and 40 before it rounds it; the result
  holds the rounded score. Rounding to one decimal moves a value by at most 0.05 and keeps
  it on its side of either threshold.
\<close>

lemma round_half_even_bounds:
  "x - 1 / 2 \<le> of_int (round_half_even x) \<and> of_int (round_half_even x) \<le> x + 1 / 2"
proof -
  define f where "f = \<lfloor>x\<rfloor>"
  have "of_int f \<le> x" "x < of_int f + 1"
    unfolding f_def by linarith+
  then show ?thesis
    unfolding round_half_even_def Let_def f_def [symmetric] by auto
qed

lemma normalized_score_lower:
  "k \<le> s \<Longrightarrow> min 100 (of_int k * 20 / 23) \<le> normalized_score s"
  by (simp add: normalized_score_def max_possible_score_def min_def field_simps)

lemma normalized_score_upper:
  "s \<le> k \<Longrightarrow> normalized_score s \<le> of_int k * 20 / 23"
  by (simp add: normalized_score_def max_possible_score_def min_def field_simps)

lemma threshold_70:
  "(70 \<le> py_round1 (normalized_score s)) = (70 \<le> normalized_score s)"
proof (cases "81 \<le> s")
  case True
  have n: "1620 / 23 \<le> normalized_score s"
    using normalized_score_lower [OF True] by simp
  have "normalized_score s * 10 - 1 / 2 \<le> of_int (round_half_even (normalized_score s * 10))"
    using round_half_even_bounds by blast
  then have "70 \<le> py_round1 (normalized_score s)"
    using n by (simp add: py_round1_def)
  then show ?thesis
    using n by simp
next
  case False
  then have "s \<le> 80" by simp
  from normalized_score_upper [OF this] have n: "normalized_score s \<le> 1600 / 23"
    by simp
  have "of_int (round_half_even (normalized_score s * 10)) \<le> normalized_score s * 10 + 1 / 2"
    using round_half_even_bounds by blast
  then have "py_round1 (normalized_score s) < 70"
    using n by (simp add: py_round1_def)
  then show ?thesis
    using n by simp
qed

lemma threshold_40:
  "(40 \<le> py_round1 (normalized_score s)) = (40 \<le> normalized_score s)"
proof (cases "46 \<le> s")
  case True
  have n: "40 \<le> normalized_score s"
    using normalized_score_lower [OF True] by simp
  have "normalized_score s * 10 - 1 / 2 \<le> of_int (round_half_even (normalized_score s * 10))"
    using round_half_even_bounds by blast
  then have "(399 :: real) < of_int (round_half_even (normalized_score s * 10))"
    using n by simp
  then have "400 \<le> round_half_even (normalized_score s * 10)"
    by linarith
  then have "(400 :: real) \<le> of_int (round_half_even (normalized_score s * 10))"
    by linarith
  then have "40 \<le> py_round1 (normalized_score s)"
    by (simp add: py_round1_def)
  then show ?thesis
    using n by simp
next
  case False
  then have "s \<le> 45" by simp
  from normalized_score_upper [OF this] have n: "normalized_score s \<le> 900 / 23"
    by simp
  have "of_int (round_half_even (normalized_score s * 10)) \<le> normalized_score s * 10 + 1 / 2"
    using round_half_even_bounds by blast
  then have "py_round1 (normalized_score s) < 40"
    using n by (simp add: py_round1_def)
  then show ?thesis
    using n by simp
qed

text \<open>
  C7. The category of a result is decided by its score: High from 70 on, Medium from 40
  on and below 70, Low below 40; and the priority marker is the one of the category
  (red for High, yellow for Medium, green for Low).
\<close>

theorem category_is_function_of_score:
  "category (calculate_succession_score cy b)
     = (if 70 \<le> score (calculate_succession_score cy b) then High
        else if 40 \<le> score (calculate_succession_score cy b) then Medium
        else Low) \<and>
   priority (calculate_succession_score cy b)
     = (case category (calculate_succession_score cy b) of
          High \<Rightarrow> Red_Circle | Medium \<Rightarrow> Yellow_Circle | Low \<Rightarrow> Green_Circle)"
  by (simp add: calculate_succession_score_def Let_def categorize_def threshold_70 threshold_40)

text \<open>
  The raw score is a multiple of 5, so the normalized score stays away from 70 by more than
  0.43 and from 40 by more than 0.86: the rounding error of the source's floating-point
  division and product, far below that, does not change a comparison.
\<close>

lemma factor_points_multiple_of_5: "5 dvd factor_points f"
  by (simp add: factor_points_def)

lemma raw_score_multiple_of_5: "5 dvd raw_score (calculate_succession_score cy b)"
proof -
  have "5 dvd sum_list (map factor_points fs)" for fs
    by (induction fs) (simp_all add: factor_points_multiple_of_5)
  moreover obtain p fs' where "run_rules cy b = (p, fs')" "sum_list (map factor_points fs') = p"
    using run_rules_tally [of cy b] by blast
  ultimately show ?thesis
    by auto
qed

lemma thresholds_have_margin:
  assumes "5 dvd s"
  shows "normalized_score s \<le> 70 - 10 / 23 \<or> 70 + 10 / 23 < normalized_score s"
    and "normalized_score s \<le> 40 - 20 / 23 \<or> 40 + 20 / 23 < normalized_score s"
proof -
  from assms obtain k where k: "s = 5 * k" by (elim dvdE)
  have "k \<le> 16 \<or> 17 \<le> k" "k \<le> 9 \<or> 10 \<le> k" by linarith+
  then show "normalized_score s \<le> 70 - 10 / 23 \<or> 70 + 10 / 23 < normalized_score s"
    and "normalized_score s \<le> 40 - 20 / 23 \<or> 40 + 20 / 23 < normalized_score s"
    unfolding k normalized_score_def max_possible_score_def
    by (auto simp add: min_def field_simps)
qed

section \<open>The industry rule\<close>

lemma industry_loop_fires_once:
  "industry_loop ind hs st =
     (if list_ex (\<lambda>k. py_in k ind) hs
      then (fst st + 15, snd st @ [''High-succession industry ('' @ ind @ '')''])
      else st)"
  by (induction hs) (cases st; simp)+

text \<open>
  C8. The industry rule fires when one of the nine keywords occurs in the lower-cased
  industry, and then adds 15 points and one factor, however many keywords occur; it reads
  the industry through \<open>lower()\<close> only, so two spellings that differ in case give the same
  result.
\<close>

theorem industry_rule_fires_once:
  "industry_rule b st =
     (if list_ex (\<lambda>k. py_in k (py_lower (case industry b of None \<Rightarrow> [] | Some i \<Rightarrow> i)))
           high_succession_industries
      then (fst st + 15,
            snd st @ [''High-succession industry (''
                        @ py_lower (case industry b of None \<Rightarrow> [] | Some i \<Rightarrow> i) @ '')''])
      else st) \<and>
   length high_succession_industries = 9 \<and>
   (py_lower i1 = py_lower i2 \<longrightarrow>
      industry_rule (b\<lparr>industry := Some i1\<rparr>) st = industry_rule (b\<lparr>industry := Some i2\<rparr>) st)"
  by (simp add: industry_rule_def industry_loop_fires_once)
    (simp add: high_succession_industries_def)

theorem industry_rule_fires_once_witness:
  "py_in ''hvac'' (py_lower ''HVAC and Plumbing'') \<and>
   py_in ''plumbing'' (py_lower ''HVAC and Plumbing'') \<and>
   industry_rule hvac_and_plumbing (0, [])
     = (15, [''High-succession industry (hvac and plumbing)'']) \<and>
   industry_rule (hvac_and_plumbing\<lparr>industry := Some ''HVAC and Plumbing''\<rparr>) (0, [])
     = industry_rule (hvac_and_plumbing\<lparr>industry := Some ''hvac AND plumbing''\<rparr>) (0, [])"
proof -
  have l: "py_lower ''HVAC and Plumbing'' = ''hvac and plumbing''"
      "py_lower ''hvac AND plumbing'' = ''hvac and plumbing''"
    by (simp_all add: string_defs)
  note t = industry_rule_fires_once
      [of hvac_and_plumbing "(0, [])" "''HVAC and Plumbing''" "''hvac AND plumbing''"]
  have 1: "industry_rule hvac_and_plumbing (0, [])
      = (15, [''High-succession industry (hvac and plumbing)''])"
    using conjunct1 [OF t]
    by (simp add: hvac_and_plumbing_def empty_business_def l high_succession_industries_def)
  have 2: "industry_rule (hvac_and_plumbing\<lparr>industry := Some ''HVAC and Plumbing''\<rparr>) (0, [])
     = industry_rule (hvac_and_plumbing\<lparr>industry := Some ''hvac AND plumbing''\<rparr>) (0, [])"
    using conjunct2 [OF conjunct2 [OF t]] l by simp
  show ?thesis
    using 1 2 by (simp add: l)
qed

section \<open>The signal extractor\<close>

text \<open>
  Every copyright match is a group of four digits, so \<open>int\<close> never raises on one, and the
  body of the \<open>try\<close> raises exactly when the fetch or the parse does.
\<close>

lemma four_digits_digits:
  "four_digits s = Some y \<Longrightarrow> length y = 4 \<and> list_all is_digit y"
  by (cases s rule: four_digits.cases) (auto split: if_splits)

lemma lazy_year_digits:
  "lazy_year s = Some (y, rest) \<Longrightarrow> length y = 4 \<and> list_all is_digit y"
  by (induction s) (auto split: option.splits if_splits dest: four_digits_digits)

lemma findall_year_digits:
  "list_all (\<lambda>y. length y = 4 \<and> list_all is_digit y) (findall_year lit s)"
  by (induction lit s rule: findall_year.induct)
    (auto split: option.splits dest: lazy_year_digits)

lemma copyright_matches_digits:
  "list_all (\<lambda>y. length y = 4 \<and> list_all is_digit y) (copyright_matches t)"
  by (simp add: copyright_matches_def findall_year_digits)

lemma window_years_digits:
  "list_all (\<lambda>y. length y = 4 \<and> list_all is_digit y) ms \<Longrightarrow>
     window_years ms = Inr (filter plausible (map digits_value ms))"
  by (induction ms) (auto simp add: py_int_def)

lemma latest_of_Max: "latest_of ys = (if ys = [] then None else Some (Max (set ys)))"
proof (cases ys)
  case Nil
  then show ?thesis by simp
next
  case (Cons y ys')
  have "foldl max y ys' = fold max ys' y"
    by (simp add: foldl_conv_fold max.commute)
  then have "latest_of (y # ys') = Some (Max (set (y # ys')))"
    by (simp only: latest_of.simps Max.set_eq_fold)
  then show ?thesis
    using Cons by simp
qed


lemma scrape_body_success:
  assumes "get (with_scheme url) = Inr response" and "parse response = Inr sp"
  shows "scrape_body get parse url =
     Inr \<lparr>accessible = Some True,
          error = None,
          title = Some (case find_title sp of Some t \<Rightarrow> py_strip t | None \<Rightarrow> []),
          copyright_years = Some (filter plausible (map digits_value (page_matches sp))),
          latest_copyright = latest_of (filter plausible (map digits_value (page_matches sp))),
          has_blog = Some (list_ex (search_ignorecase [''blog'', ''news'']) (link_hrefs sp)),
          has_careers = Some (list_ex (search_ignorecase [''career'', ''job'', ''hiring''])
                                (link_hrefs sp)),
          last_updated = scan_patterns date_patterns (py_lower (get_text sp)),
          text_length = Some (length (py_lower (get_text sp)))\<rparr>"
  using assms
  by (simp add: scrape_body_def Let_def page_matches_def
        window_years_digits [OF copyright_matches_digits])

lemma scrape_body_raises:
  "scrape_body get parse url = Inl e \<longleftrightarrow>
     (get (with_scheme url) = Inl e \<or>
      (\<exists>response. get (with_scheme url) = Inr response \<and> parse response = Inl e))"
  by (auto simp add: scrape_body_def Let_def window_years_digits [OF copyright_matches_digits]
        split: sum.splits)

text \<open>
  C4, as claimed: every failed fetch or parse, a response that is not HTML among them,
  gives the result with \<open>accessible\<close> false. The source looks at neither the content type
  nor the status of the response, and the parser raises on no content: the body of a JSON
  response is fetched and parsed as a page of text, and the result says \<open>accessible\<close> true.
\<close>

theorem non_html_response_is_accessible:
  "scrape_website_data json_response plain_text ''api.example.com/status'' =
     \<lparr>accessible = Some True, error = None, title = Some [], copyright_years = Some [],
      latest_copyright = None, has_blog = Some False, has_careers = Some False,
      last_updated = None, text_length = Some 9\<rparr> \<and>
   accessible (scrape_website_data json_response plain_text ''api.example.com/status'')
     \<noteq> Some False"
proof -
  have "scrape_body json_response plain_text ''api.example.com/status'' =
     Inr \<lparr>accessible = Some True, error = None, title = Some [], copyright_years = Some [],
      latest_copyright = None, has_blog = Some False, has_careers = Some False,
      last_updated = None, text_length = Some 9\<rparr>"
    by (simp add: scrape_body_def json_response_def plain_text_def text_soup_def
          copyright_matches_def string_defs is_digit_def date_patterns_def updated_at_def
          date_at_def digits_slash_def)
  then show ?thesis
    by (simp add: scrape_website_data_def)
qed

text \<open>
  C4, amended. When the fetch or the parse raises an exception \<open>e\<close> (a network error, a
  timeout, an exception of the parser), the result is the record of the \<open>except\<close> clause:
  \<open>accessible\<close> false, the error text \<open>str(e)\<close>, and every other field empty, zero or
  absent. The body of the \<open>try\<close> raises in no other case, and the function returns a result
  for every fetch, parser and url. A response that is fetched and parsed without an
  exception, whatever its content, gives a result with \<open>accessible\<close> true and no error.
\<close>

theorem scrape_failure_result:
  "(get (with_scheme url) = Inl e \<or>
    (\<exists>response. get (with_scheme url) = Inr response \<and> parse response = Inl e) \<longrightarrow>
      scrape_website_data get parse url =
        \<lparr>accessible = Some False, error = Some (str e), title = Some [],
         copyright_years = Some [], latest_copyright = None, has_blog = Some False,
         has_careers = Some False, last_updated = None, text_length = Some 0\<rparr>) \<and>
   (scrape_body get parse url = Inl e \<longleftrightarrow>
      (get (with_scheme url) = Inl e \<or>
       (\<exists>response. get (with_scheme url) = Inr response \<and> parse response = Inl e))) \<and>
   (accessible (scrape_website_data get parse url) = Some True \<or>
    accessible (scrape_website_data get parse url) = Some False \<and>
    (\<exists>e'. scrape_body get parse url = Inl e')) \<and>
   (get' (with_scheme url') = Inr response' \<and> parse' response' = Inr sp' \<longrightarrow>
      accessible (scrape_website_data get' parse' url') = Some True \<and>
      error (scrape_website_data get' parse' url') = None)"
proof (intro conjI impI)
  assume "get (with_scheme url) = Inl e \<or>
    (\<exists>response. get (with_scheme url) = Inr response \<and> parse response = Inl e)"
  then have "scrape_body get parse url = Inl e"
    by (simp only: scrape_body_raises)
  then show "scrape_website_data get parse url =
        \<lparr>accessible = Some False, error = Some (str e), title = Some [],
         copyright_years = Some [], latest_copyright = None, has_blog = Some False,
         has_careers = Some False, last_updated = None, text_length = Some 0\<rparr>"
    by (simp add: scrape_website_data_def)
next
  show "scrape_body get parse url = Inl e \<longleftrightarrow>
      (get (with_scheme url) = Inl e \<or>
       (\<exists>response. get (with_scheme url) = Inr response \<and> parse response = Inl e))"
    by (rule scrape_body_raises)
next
  show "accessible (scrape_website_data get parse url) = Some True \<or>
    accessible (scrape_website_data get parse url) = Some False \<and>
    (\<exists>e'. scrape_body get parse url = Inl e')"
  proof (cases "scrape_body get parse url")
    case (Inl e')
    then show ?thesis by (simp add: scrape_website_data_def)
  next
    case (Inr r)
    then obtain response sp where "get (with_scheme url) = Inr response" "parse response = Inr sp"
      by (auto simp add: scrape_body_def split: sum.splits)
    from scrape_body_success [where get = get and url = url and parse = parse, OF this]
    show ?thesis
      by (simp add: scrape_website_data_def)
  qed
next
  assume s: "get' (with_scheme url') = Inr response' \<and> parse' response' = Inr sp'"
  note b = scrape_body_success [where get = get' and url = url' and parse = parse',
      OF conjunct1 [OF s] conjunct2 [OF s]]
  show "accessible (scrape_website_data get' parse' url') = Some True"
    by (simp add: scrape_website_data_def b)
  show "error (scrape_website_data get' parse' url') = None"
    by (simp add: scrape_website_data_def b)
qed

theorem scrape_failure_result_witness:
  "timed_out (with_scheme ''blueridgehvac.net'') = Inl (Exception ''Read timed out. (read timeout=10)'') \<and>
   scrape_website_data timed_out plain_text ''blueridgehvac.net'' =
     \<lparr>accessible = Some False, error = Some ''Read timed out. (read timeout=10)'',
      title = Some [], copyright_years = Some [], latest_copyright = None,
      has_blog = Some False, has_careers = Some False, last_updated = None,
      text_length = Some 0\<rparr> \<and>
   small_pages (with_scheme ''http://tntrucking.com'') = Inr trucking_page \<and>
   plain_text trucking_page = Inr (text_soup trucking_page) \<and>
   accessible (scrape_website_data small_pages plain_text ''http://tntrucking.com'') = Some True \<and>
   error (scrape_website_data small_pages plain_text ''http://tntrucking.com'') = None"
proof -
  have h: "timed_out (with_scheme ''blueridgehvac.net'')
      = Inl (Exception ''Read timed out. (read timeout=10)'')"
    by (simp add: timed_out_def)
  have g: "small_pages (with_scheme ''http://tntrucking.com'') = Inr trucking_page"
    by (simp add: small_pages_def with_scheme_def)
  have p: "plain_text trucking_page = Inr (text_soup trucking_page)"
    by (simp add: plain_text_def)
  note t = scrape_failure_result [where get = timed_out and url = "''blueridgehvac.net''"
      and e = "Exception ''Read timed out. (read timeout=10)''" and parse = plain_text
      and get' = small_pages and url' = "''http://tntrucking.com''" and parse' = plain_text
      and response' = trucking_page and sp' = "text_soup trucking_page"]
  from t h have "scrape_website_data timed_out plain_text ''blueridgehvac.net'' =
     \<lparr>accessible = Some False,
      error = Some (str (Exception ''Read timed out. (read timeout=10)'')),
      title = Some [], copyright_years = Some [], latest_copyright = None,
      has_blog = Some False, has_careers = Some False, last_updated = None,
      text_length = Some 0\<rparr>"
    by blast
  then have 1: "scrape_website_data timed_out plain_text ''blueridgehvac.net'' =
     \<lparr>accessible = Some False, error = Some ''Read timed out. (read timeout=10)'',
      title = Some [], copyright_years = Some [], latest_copyright = None,
      has_blog = Some False, has_careers = Some False, last_updated = None,
      text_length = Some 0\<rparr>"
    by simp
  from t g p have 2:
    "accessible (scrape_website_data small_pages plain_text ''http://tntrucking.com'') = Some True"
    "error (scrape_website_data small_pages plain_text ''http://tntrucking.com'') = None"
    by blast+
  show ?thesis
    by (intro conjI) (rule h, rule 1, rule g, rule p, rule 2(1), rule 2(2))
qed

text \<open>
  C9. Of the copyright matches of a page, the years from 1990 to 2024 are kept, in the
  order of the matches, and the latest copyright year is their maximum, absent when none
  is kept; it is never a year outside the window, and two pages whose matches inside the
  window are the same have the same latest copyright year, whatever their other matches.
\<close>

theorem latest_copyright_is_max_in_window:
  assumes "get (with_scheme url) = Inr response" and "parse response = Inr sp"
  shows "copyright_years (scrape_website_data get parse url)
           = Some (filter plausible (map digits_value (page_matches sp))) \<and>
         latest_copyright (scrape_website_data get parse url)
           = (if filter plausible (map digits_value (page_matches sp)) = [] then None
              else Some (Max (set (filter plausible (map digits_value (page_matches sp)))))) \<and>
         (case latest_copyright (scrape_website_data get parse url) of
            None \<Rightarrow> True | Some m \<Rightarrow> 1990 \<le> m \<and> m \<le> 2024) \<and>
         list_all (\<lambda>y. length y = 4 \<and> list_all is_digit y) (page_matches sp) \<and>
         (get' (with_scheme url') = Inr response' \<and> parse' response' = Inr sp' \<and>
          filter (\<lambda>y. plausible (digits_value y)) (page_matches sp)
            = filter (\<lambda>y. plausible (digits_value y)) (page_matches sp') \<longrightarrow>
            latest_copyright (scrape_website_data get parse url)
              = latest_copyright (scrape_website_data get' parse' url'))"
proof -
  let ?ys = "filter plausible (map digits_value (page_matches sp))"
  have r: "copyright_years (scrape_website_data get parse url) = Some ?ys"
      "latest_copyright (scrape_website_data get parse url) = latest_of ?ys"
    by (simp_all add: scrape_website_data_def scrape_body_success [where get = get and url = url and parse = parse, OF assms])
  have m: "latest_of ?ys = (if ?ys = [] then None else Some (Max (set ?ys)))"
    by (rule latest_of_Max)
  have "Max (set ?ys) \<in> set ?ys" if "?ys \<noteq> []"
  proof (rule Max_in)
    show "finite (set ?ys)" by (rule finite_set)
    show "set ?ys \<noteq> {}" using that by (simp only: set_empty not_False_eq_True)
  qed
  then have w: "plausible (Max (set ?ys))" if "?ys \<noteq> []"
    using that by auto
  have d: "list_all (\<lambda>y. length y = 4 \<and> list_all is_digit y) (page_matches sp)"
    by (simp add: page_matches_def copyright_matches_digits)
  have n: "latest_copyright (scrape_website_data get parse url)
      = latest_copyright (scrape_website_data get' parse' url')"
    if "get' (with_scheme url') = Inr response'" "parse' response' = Inr sp'"
      "filter (\<lambda>y. plausible (digits_value y)) (page_matches sp)
        = filter (\<lambda>y. plausible (digits_value y)) (page_matches sp')"
  proof -
    have "filter plausible (map digits_value ms)
        = map digits_value (filter (\<lambda>y. plausible (digits_value y)) ms)" for ms
      by (simp add: filter_map comp_def)
    then have e: "?ys = filter plausible (map digits_value (page_matches sp'))"
      using that(3) by simp
    have r': "latest_copyright (scrape_website_data get' parse' url')
        = latest_of (filter plausible (map digits_value (page_matches sp')))"
      by (simp add: scrape_website_data_def
            scrape_body_success [where get = get' and url = url' and parse = parse', OF that(1,2)])
    show ?thesis
      by (simp only: r(2) r' e)
  qed
  show ?thesis
    using r m w d n by (auto simp add: plausible_def)
qed

lemma sample_page_matches:
  "page_matches (text_soup blue_ridge_page) = [''2015'', ''1899'']"
  "page_matches (text_soup trucking_page) = [''2015'']"
  "page_matches (text_soup ([CHR 0xA9] @ '' 1899'')) = [''1899'']"
  "page_matches (text_soup ([CHR 0xA9] @ '' 2099'')) = [''2099'']"
  "page_matches (text_soup ''Copyright 1899-2015 Acme'') = [''1899'']"
  by (simp_all add: page_matches_def text_soup_def copyright_matches_def blue_ridge_page_def
        trucking_page_def string_defs is_digit_def)

lemma sample_years:
  "filter plausible (map digits_value [''2015'', ''1899'']) = [2015]"
  "filter plausible (map digits_value [''1899'']) = []"
  "filter plausible (map digits_value [''2099'']) = []"
  "filter (\<lambda>y. plausible (digits_value y)) [''2015'', ''1899''] = [''2015'']"
  "filter (\<lambda>y. plausible (digits_value y)) [''2015''] = [''2015'']"
  by (simp_all add: plausible_def digits_value_def digit_value_def)

theorem latest_copyright_is_max_in_window_witness:
  "small_pages (with_scheme ''blueridgehvac.net'') = Inr blue_ridge_page \<and>
   plain_text blue_ridge_page = Inr (text_soup blue_ridge_page) \<and>
   page_matches (text_soup blue_ridge_page) = [''2015'', ''1899''] \<and>
   copyright_years (scrape_website_data small_pages plain_text ''blueridgehvac.net'')
     = Some [2015] \<and>
   latest_copyright (scrape_website_data small_pages plain_text ''blueridgehvac.net'')
     = Some 2015 \<and>
   latest_copyright (scrape_website_data small_pages plain_text ''blueridgehvac.net'')
     = latest_copyright (scrape_website_data small_pages plain_text ''http://tntrucking.com'')"
proof -
  have g: "small_pages (with_scheme ''blueridgehvac.net'') = Inr blue_ridge_page"
    and g': "small_pages (with_scheme ''http://tntrucking.com'') = Inr trucking_page"
    by (simp_all add: small_pages_def with_scheme_def)
  have p: "plain_text blue_ridge_page = Inr (text_soup blue_ridge_page)"
    and p': "plain_text trucking_page = Inr (text_soup trucking_page)"
    by (simp_all add: plain_text_def)
  note t = latest_copyright_is_max_in_window [where get = small_pages and parse = plain_text
      and url = "''blueridgehvac.net''" and get' = small_pages and parse' = plain_text
      and url' = "''http://tntrucking.com''" and response' = trucking_page
      and sp' = "text_soup trucking_page", OF g p]
  have 1: "copyright_years (scrape_website_data small_pages plain_text ''blueridgehvac.net'')
      = Some [2015]"
    using conjunct1 [OF t] by (simp only: sample_page_matches sample_years)
  have 2: "latest_copyright (scrape_website_data small_pages plain_text ''blueridgehvac.net'')
      = Some 2015"
    using conjunct1 [OF conjunct2 [OF t]] by (simp only: sample_page_matches sample_years) simp
  have "filter (\<lambda>y. plausible (digits_value y)) (page_matches (text_soup blue_ridge_page))
      = filter (\<lambda>y. plausible (digits_value y)) (page_matches (text_soup trucking_page))"
    by (simp only: sample_page_matches sample_years)
  with t g' p' have 3:
    "latest_copyright (scrape_website_data small_pages plain_text ''blueridgehvac.net'')
      = latest_copyright (scrape_website_data small_pages plain_text ''http://tntrucking.com'')"
    by blast
  show ?thesis
    by (intro conjI) (rule g, rule p, rule sample_page_matches(1), rule 1, rule 2, rule 3)
qed

text \<open>
  A page that holds nothing but the sign and 1899, or 2099, has no latest copyright year.
  Each occurrence of the word or the sign gives one match, the first four digits in a row
  after it on its line: in \<open>Copyright 1899-2015\<close> the match is 1899, and 2015 is not a
  match (the last equation of \<open>sample_page_matches\<close>).
\<close>

lemma out_of_window_pages:
  "latest_copyright (scrape_website_data (\<lambda>url. Inr ([CHR 0xA9] @ '' 1899'')) plain_text u) = None"
  "latest_copyright (scrape_website_data (\<lambda>url. Inr ([CHR 0xA9] @ '' 2099'')) plain_text u) = None"
proof -
  have p: "plain_text c = Inr (text_soup c)" for c
    by (simp add: plain_text_def)
  note a = scrape_body_success [where get = "\<lambda>url. Inr ([CHR 0xA9] @ '' 1899'')"
      and parse = plain_text and url = u, OF refl p]
  note b = scrape_body_success [where get = "\<lambda>url. Inr ([CHR 0xA9] @ '' 2099'')"
      and parse = plain_text and url = u, OF refl p]
  show "latest_copyright (scrape_website_data (\<lambda>url. Inr ([CHR 0xA9] @ '' 1899'')) plain_text u)
      = None"
    by (simp only: scrape_website_data_def a sample_page_matches sample_years) simp
  show "latest_copyright (scrape_website_data (\<lambda>url. Inr ([CHR 0xA9] @ '' 2099'')) plain_text u)
      = None"
    by (simp only: scrape_website_data_def b sample_page_matches sample_years) simp
qed

end
